theory Spec2Isabelle
  imports Main "HOL-Library.Word"
begin

section \<open>Data model\<close>

text \<open>
  Go's \<^verbatim>\<open>int64\<close> is a 64-bit word read as a signed number (\<open>sint\<close>, \<open><s\<close>).
  Go's \<^verbatim>\<open>int\<close> is taken at its 64-bit size. Slices are lists (the nil slice is \<open>[]\<close>),
  a \<^verbatim>\<open>map[string][]string\<close> is a partial function (the nil map is \<open>Map.empty\<close>).
\<close>

type_synonym int64 = "64 word"
type_synonym go_int = "64 word"

type_synonym FilesystemProvider = go_int

definition LocalFilesystemProvider :: FilesystemProvider where
  "LocalFilesystemProvider = 0"
definition S3FilesystemProvider :: FilesystemProvider where
  "S3FilesystemProvider = 1"
definition GCSFilesystemProvider :: FilesystemProvider where
  "GCSFilesystemProvider = 2"
definition AzureBlobFilesystemProvider :: FilesystemProvider where
  "AzureBlobFilesystemProvider = 3"
definition CryptedFilesystemProvider :: FilesystemProvider where
  "CryptedFilesystemProvider = 4"
definition SFTPFilesystemProvider :: FilesystemProvider where
  "SFTPFilesystemProvider = 5"

type_synonym SecretStatus = string

record Secret =
  Status :: SecretStatus
  Payload :: string
  Key :: string
  AdditionalData :: string
  Mode :: go_int

record S3FsConfig =
  Bucket :: string
  KeyPrefix :: string
  Region :: string
  AccessKey :: string
  AccessSecret :: Secret
  Endpoint :: string
  StorageClass :: string
  UploadPartSize :: int64
  UploadConcurrency :: go_int

record Filesystem =
  Provider :: FilesystemProvider
  S3Config :: S3FsConfig

record ExtensionsFilter =
  Path :: string
  AllowedExtensions :: "string list"
  DeniedExtensions :: "string list"

record PatternsFilter =
  Path :: string
  AllowedPatterns :: "string list"
  DeniedPatterns :: "string list"

record UserFilters =
  AllowedIP :: "string list"
  DeniedIP :: "string list"
  DeniedLoginMethods :: "string list"
  DeniedProtocols :: "string list"
  FileExtensions :: "ExtensionsFilter list"
  FilePatterns :: "PatternsFilter list"
  MaxUploadFileSize :: int64

record User =
  ID :: int64
  Status :: go_int
  Username :: string
  ExpirationDate :: int64
  Password :: string
  PublicKeys :: "string list"
  HomeDir :: string
  UID :: go_int
  GID :: go_int
  MaxSessions :: go_int
  QuotaSize :: int64
  QuotaFiles :: go_int
  Permissions :: "string \<rightharpoonup> string list"
  UsedQuotaSize :: int64
  UsedQuotaFiles :: go_int
  LastQuotaUpdate :: int64
  UploadBandwidth :: int64
  DownloadBandwidth :: int64
  LastLogin :: int64
  Filters :: UserFilters
  FsConfig :: Filesystem
  AdditionalInfo :: string

type_synonym Users = "User list"

record ConnectionTransfer =
  OperationType :: string
  StartTime :: int64
  Size :: int64
  VirtualPath :: string

record ConnectionStatus =
  Username :: string
  ConnectionID :: string
  ClientVersion :: string
  RemoteAddress :: string
  ConnectionTime :: int64
  LastActivity :: int64
  Protocol :: string
  Transfers :: "ConnectionTransfer list"
  Command :: string

record UserQuotaScan =
  Username :: string
  Start :: int64

type_synonym UserQuotaScans = "UserQuotaScan list"

text \<open>The zero value \<^verbatim>\<open>User{}\<close>: every field at its zero value.\<close>

definition Secret_zero :: Secret where
  "Secret_zero = \<lparr>Secret.Status = [], Payload = [], Key = [], AdditionalData = [], Mode = 0\<rparr>"

definition S3FsConfig_zero :: S3FsConfig where
  "S3FsConfig_zero =
     \<lparr>Bucket = [], KeyPrefix = [], Region = [], AccessKey = [], AccessSecret = Secret_zero,
      Endpoint = [], StorageClass = [], UploadPartSize = 0, UploadConcurrency = 0\<rparr>"

definition Filesystem_zero :: Filesystem where
  "Filesystem_zero = \<lparr>Provider = 0, S3Config = S3FsConfig_zero\<rparr>"

definition UserFilters_zero :: UserFilters where
  "UserFilters_zero =
     \<lparr>AllowedIP = [], DeniedIP = [], DeniedLoginMethods = [], DeniedProtocols = [],
      FileExtensions = [], FilePatterns = [], MaxUploadFileSize = 0\<rparr>"

definition User_zero :: User where
  "User_zero =
     \<lparr>ID = 0, User.Status = 0, User.Username = [], ExpirationDate = 0, User.Password = [],
      PublicKeys = [], HomeDir = [], UID = 0, GID = 0, MaxSessions = 0, QuotaSize = 0,
      QuotaFiles = 0, Permissions = Map.empty, UsedQuotaSize = 0, UsedQuotaFiles = 0,
      LastQuotaUpdate = 0, UploadBandwidth = 0, DownloadBandwidth = 0, LastLogin = 0,
      Filters = UserFilters_zero, FsConfig = Filesystem_zero, AdditionalInfo = []\<rparr>"

subsection \<open>Users.Filter\<close>

text \<open>
  \<^verbatim>\<open>
  func (users Users) Filter(f UserFilterFunc) Users {
      var Results Users
      for _, User := range users {
          if f(User) { Results = append(Results, User) }
      }
      return Results
  }
  \<close>
  The range loop is a recursion over the slice that carries \<open>Results\<close>.
\<close>

type_synonym UserFilterFunc = "User \<Rightarrow> bool"

fun Filter_range :: "UserFilterFunc \<Rightarrow> Users \<Rightarrow> Users \<Rightarrow> Users" where
  "Filter_range f Results [] = Results"
| "Filter_range f Results (user # rest) =
     Filter_range f (if f user then Results @ [user] else Results) rest"

definition Filter :: "Users \<Rightarrow> UserFilterFunc \<Rightarrow> Users" where
  "Filter users f = Filter_range f [] users"

section \<open>Errors\<close>

record apiError =
  Message :: string
  Err :: string

definition apiError_Error :: "apiError \<Rightarrow> string" where
  "apiError_Error err = (if Err err \<noteq> [] then Err err else Message err)"

text \<open>
  The values of Go's \<^verbatim>\<open>error\<close> interface that reach this package: the two sentinels, a decoded
  \<^verbatim>\<open>apiError\<close>, and whatever the HTTP and JSON libraries report (kept by its message).
\<close>

datatype error =
    ErrUnauthorized
  | ErrForbidden
  | ApiError apiError
  | LibraryError string

fun Error :: "error \<Rightarrow> string" where
  "Error ErrUnauthorized = ''Unauthorized''"
| "Error ErrForbidden = ''Forbidden''"
| "Error (ApiError err) = apiError_Error err"
| "Error (LibraryError msg) = msg"

section \<open>Requests and responses\<close>

text \<open>
  A request as the client's builder calls leave it. \<open>BasicAuth\<close> holds the credentials a
  request carries for the library's \<^verbatim>\<open>auth.Basic\<close> plugin, \<open>JSON\<close> the value given to
  \<^verbatim>\<open>req.JSON\<close>. The timeout plugins are not part of the model.
\<close>

record request =
  Method :: string
  URL :: string
  Path :: string
  Query :: "string \<rightharpoonup> string"
  Header :: "string \<rightharpoonup> string"
  BasicAuth :: "(string \<times> string) option"
  JSON :: "User option"

text \<open>
  A response as the library hands it over. \<open>Ok\<close> is the library's flag \<^verbatim>\<open>resp.Ok\<close>: the
  library sets it from the status code, and the client only reads it, so it is a field of
  its own and nothing is assumed about the statuses it holds for.
\<close>

record response =
  StatusCode :: int
  Ok :: bool
  Body :: string

text \<open>
  A \<^verbatim>\<open>gentleman.Client\<close> is its base URL and what \<^verbatim>\<open>Do\<close> does with a request: it takes the
  world \<open>'w\<close> (the server, the network, the plugins' state) to a new world and yields either
  the error or the response.
\<close>

record 'w gentleman_Client =
  BaseURL :: string
  Do :: "'w \<Rightarrow> request \<Rightarrow> (error + response) \<times> 'w"

definition Request :: "'w gentleman_Client \<Rightarrow> request" where
  "Request cli =
     \<lparr>Method = ''GET'', URL = BaseURL cli, request.Path = [], Query = Map.empty,
      Header = Map.empty, BasicAuth = None, JSON = None\<rparr>"

definition SetQuery :: "string \<Rightarrow> string \<Rightarrow> request \<Rightarrow> request" where
  "SetQuery name v req = req\<lparr>Query := (Query req)(name \<mapsto> v)\<rparr>"

text \<open>
  The decoders of the JSON library, one for each destination type. Decoding into the
  token provider reports the fields it wrote together with its error, since a failed
  decoding may already have written some of them.
\<close>

record token_fields =
  access_token :: "string option"
  expires_at :: "int option"
  Username :: "string option"
  Password :: "string option"

record codec =
  json_users :: "string \<Rightarrow> error + Users"
  json_scans :: "string \<Rightarrow> error + UserQuotaScans"
  json_connections :: "string \<Rightarrow> error + ConnectionStatus list"
  json_apiError :: "string \<Rightarrow> error + apiError"
  json_token :: "string \<Rightarrow> token_fields \<times> error option"

section \<open>The client\<close>

definition parseErrorResponse :: "codec \<Rightarrow> response \<Rightarrow> error" where
  "parseErrorResponse cd resp =
     (if StatusCode resp = 401 then ErrUnauthorized
      else if StatusCode resp = 403 then ErrForbidden
      else (case json_apiError cd (Body resp) of
              Inl err \<Rightarrow> err
            | Inr apiErr \<Rightarrow> ApiError apiErr))"

definition doJSON ::
  "codec \<Rightarrow> (string \<Rightarrow> error + 'a) \<Rightarrow> 'w gentleman_Client \<Rightarrow> request \<Rightarrow> 'w \<Rightarrow> (error + 'a) \<times> 'w" where
  "doJSON cd decode cli req w =
     (case Do cli w req of
        (Inl err, w') \<Rightarrow> (Inl err, w')
      | (Inr resp, w') \<Rightarrow>
          if Ok resp then (decode (Body resp), w')
          else (Inl (parseErrorResponse cd resp), w'))"

record GetUsersInput =
  Offset :: go_int
  Limit :: go_int
  Order :: string

text \<open>\<^verbatim>\<open>strconv.Itoa\<close>: the decimal rendering of a signed integer.\<close>

fun FormatUint :: "nat \<Rightarrow> string" where
  "FormatUint n =
     (if n < 10 then [''0123456789'' ! n]
      else FormatUint (n div 10) @ [''0123456789'' ! (n mod 10)])"

definition Itoa :: "go_int \<Rightarrow> string" where
  "Itoa i =
     (if sint i < 0 then CHR ''-'' # FormatUint (nat (- sint i)) else FormatUint (nat (sint i)))"

text \<open>The request \<open>GetUsers\<close> has built when it reaches \<^verbatim>\<open>doJSON\<close>.\<close>

definition GetUsers_request :: "'w gentleman_Client \<Rightarrow> GetUsersInput \<Rightarrow> request" where
  "GetUsers_request cli input =
     (let req = Request cli;
          req = req\<lparr>request.Path := ''/api/v2/users''\<rparr>;
          req = (if 0 <s Offset input then SetQuery ''offset'' (Itoa (Offset input)) req else req);
          req = (if 0 <s Limit input then SetQuery ''limit'' (Itoa (Limit input)) req else req);
          req = (if Order input \<noteq> [] then SetQuery ''order'' (Order input) req else req)
      in req)"

text \<open>
  A Go result \<^verbatim>\<open>(Users, error)\<close> is the pair of the slice and the error, \<open>None\<close> for a nil
  error; the world after the call comes with it.
\<close>

definition GetUsers ::
  "codec \<Rightarrow> 'w gentleman_Client \<Rightarrow> GetUsersInput \<Rightarrow> 'w \<Rightarrow> (Users \<times> error option) \<times> 'w" where
  "GetUsers cd cli input w =
     (case doJSON cd (json_users cd) cli (GetUsers_request cli input) w of
        (Inl err, w') \<Rightarrow> (([], Some err), w')
      | (Inr users, w') \<Rightarrow> ((users, None), w'))"

text \<open>
  The \<^verbatim>\<open>for\<close> loop of \<open>GetAllUsers\<close> has no bound of its own: it is a partial function,
  \<open>None\<close> when the loop never leaves.
\<close>

partial_function (option) GetAllUsers_loop ::
  "codec \<Rightarrow> 'w gentleman_Client \<Rightarrow> GetUsersInput \<Rightarrow> Users \<Rightarrow> 'w \<Rightarrow> ((Users \<times> error option) \<times> 'w) option" where
  "GetAllUsers_loop cd cli Input all w =
     (case GetUsers cd cli Input w of
        ((page, Some err), w') \<Rightarrow> Some (([], Some err), w')
      | ((page, None), w') \<Rightarrow>
          (let all' = all @ page in
           if int (length page) < sint (Limit Input) then Some ((all', None), w')
           else GetAllUsers_loop cd cli (Input\<lparr>Offset := Offset Input + Limit Input\<rparr>) all' w'))"

definition GetAllUsers ::
  "codec \<Rightarrow> 'w gentleman_Client \<Rightarrow> 'w \<Rightarrow> ((Users \<times> error option) \<times> 'w) option" where
  "GetAllUsers cd cli w = GetAllUsers_loop cd cli \<lparr>Offset = 0, Limit = 500, Order = []\<rparr> [] w"

definition GetUserQuotaScans ::
  "codec \<Rightarrow> 'w gentleman_Client \<Rightarrow> 'w \<Rightarrow> (UserQuotaScans \<times> error option) \<times> 'w" where
  "GetUserQuotaScans cd cli w =
     (let req = Request cli;
          req = req\<lparr>request.Path := ''/api/v2/quota-scans''\<rparr>
      in case doJSON cd (json_scans cd) cli req w of
           (Inl err, w') \<Rightarrow> (([], Some err), w')
         | (Inr scans, w') \<Rightarrow> ((scans, None), w'))"

definition GetActiveConnections ::
  "codec \<Rightarrow> 'w gentleman_Client \<Rightarrow> 'w \<Rightarrow> (ConnectionStatus list \<times> error option) \<times> 'w" where
  "GetActiveConnections cd cli w =
     (let req = Request cli;
          req = req\<lparr>request.Path := ''/api/v2/connections''\<rparr>
      in case doJSON cd (json_connections cd) cli req w of
           (Inl err, w') \<Rightarrow> (([], Some err), w')
         | (Inr connections, w') \<Rightarrow> ((connections, None), w'))"

definition StartUserQuotaScan ::
  "codec \<Rightarrow> 'w gentleman_Client \<Rightarrow> User \<Rightarrow> 'w \<Rightarrow> error option \<times> 'w" where
  "StartUserQuotaScan cd cli user w =
     (let req = Request cli;
          req = req\<lparr>Method := ''POST''\<rparr>;
          req = req\<lparr>request.Path := ''/api/v2/quota-scans''\<rparr>;
          req = req\<lparr>JSON := Some user\<rparr>
      in case Do cli w req of
           (Inl err, w') \<Rightarrow> (Some err, w')
         | (Inr resp, w') \<Rightarrow>
             if Ok resp then (None, w') else (Some (parseErrorResponse cd resp), w'))"

text \<open>
  Modelled from the spec: \<open>TerminateActiveConnection\<close> is called by the package's test, and its
  body is in none of the source files. The spec gives it as a DELETE to the per-connection
  endpoint \<^verbatim>\<open>/api/v2/connections/{id}\<close>, with ``success is 2xx'' and the shared classification
  rule ``applied to every non-2xx response''. Success is therefore the test of the status
  code that the spec words, not the library's flag.
\<close>

definition TerminateActiveConnection ::
  "codec \<Rightarrow> 'w gentleman_Client \<Rightarrow> string \<Rightarrow> 'w \<Rightarrow> error option \<times> 'w" where
  "TerminateActiveConnection cd cli connectionID w =
     (let req = Request cli;
          req = req\<lparr>Method := ''DELETE''\<rparr>;
          req = req\<lparr>request.Path := ''/api/v2/connections/'' @ connectionID\<rparr>
      in case Do cli w req of
           (Inl err, w') \<Rightarrow> (Some err, w')
         | (Inr resp, w') \<Rightarrow>
             if 200 \<le> StatusCode resp \<and> StatusCode resp < 300 then (None, w')
             else (Some (parseErrorResponse cd resp), w'))"

section \<open>The token provider\<close>

text \<open>
  An instant is its count of nanoseconds since the Unix epoch, an unbounded integer; the
  reading of \<^verbatim>\<open>time.Now()\<close> is an input of \<open>Token\<close>.
\<close>

type_synonym time = int

definition Second :: int where
  "Second = 1000000000"

record 'w tokenProvider =
  Value :: string
  Expires :: time
  Client :: "'w gentleman_Client"
  Username :: string
  Password :: string

text \<open>
  \<^verbatim>\<open>resp.JSON(t)\<close> decodes into the provider itself: a field the decoder wrote takes the
  decoded value, every other field stays. (A key for the \<open>Client\<close> field is outside the model.)
\<close>

definition decode_into :: "'w tokenProvider \<Rightarrow> token_fields \<Rightarrow> 'w tokenProvider" where
  "decode_into t fs =
     t\<lparr>Value := (case access_token fs of Some v \<Rightarrow> v | None \<Rightarrow> Value t),
       Expires := (case expires_at fs of Some e \<Rightarrow> e | None \<Rightarrow> Expires t),
       tokenProvider.Username :=
         (case token_fields.Username fs of Some u \<Rightarrow> u | None \<Rightarrow> tokenProvider.Username t),
       tokenProvider.Password :=
         (case token_fields.Password fs of Some p \<Rightarrow> p | None \<Rightarrow> tokenProvider.Password t)\<rparr>"

text \<open>The request \<open>Token\<close> sends when the cached token is not fresh enough.\<close>

definition Token_request :: "'w tokenProvider \<Rightarrow> request" where
  "Token_request t =
     (let req = Request (Client t);
          req = req\<lparr>request.Path := ''/api/v2/token''\<rparr>;
          req = req\<lparr>BasicAuth := Some (tokenProvider.Username t, tokenProvider.Password t)\<rparr>
      in req)"

definition Token ::
  "codec \<Rightarrow> time \<Rightarrow> 'w tokenProvider \<Rightarrow> 'w \<Rightarrow> (string \<times> error option) \<times> 'w tokenProvider \<times> 'w" where
  "Token cd now t w =
     (if now + Second * 10 < Expires t then ((Value t, None), t, w)
      else
        (case Do (Client t) w (Token_request t) of
           (Inl err, w') \<Rightarrow> (([], Some err), t, w')
         | (Inr resp, w') \<Rightarrow>
             if Ok resp then
               (case json_token cd (Body resp) of
                  (fs, Some err) \<Rightarrow> (([], Some err), decode_into t fs, w')
                | (fs, None) \<Rightarrow> ((Value (decode_into t fs), None), decode_into t fs, w'))
             else (([], Some (parseErrorResponse cd resp)), t, w')))"

text \<open>The zero \<^verbatim>\<open>time.Time\<close> is January 1 of year 1, UTC.\<close>

definition zero_Time :: time where
  "zero_Time = - 62135596800 * Second"

definition NewTokenProvider :: "'w gentleman_Client \<Rightarrow> string \<Rightarrow> string \<Rightarrow> 'w tokenProvider" where
  "NewTokenProvider cli Username' Password' =
     \<lparr>Value = [], Expires = zero_Time, Client = cli,
      tokenProvider.Username = Username', tokenProvider.Password = Password'\<rparr>"

subsection \<open>The token plugin\<close>

text \<open>
  \<^verbatim>\<open>gentleman.New()\<close> is a client without plugins: its \<^verbatim>\<open>Do\<close> is the library's transport
  \<open>dial\<close>. The handler that \<open>NewTokenPlugin\<close> registers ends in \<^verbatim>\<open>h.Next(ctx)\<close> or in
  \<^verbatim>\<open>h.Error(ctx, err)\<close>; the library's dispatcher dials the request after the first and
  returns the error without dialling after the second.
\<close>

definition gentleman_New :: "('w \<Rightarrow> request \<Rightarrow> (error + response) \<times> 'w) \<Rightarrow> 'w gentleman_Client" where
  "gentleman_New dial = \<lparr>BaseURL = [], Do = dial\<rparr>"

datatype handler = h_Next request | h_Error error

definition NewTokenPlugin_provider ::
  "('w \<Rightarrow> request \<Rightarrow> (error + response) \<times> 'w) \<Rightarrow> string \<Rightarrow> string \<Rightarrow> string \<Rightarrow> 'w tokenProvider" where
  "NewTokenPlugin_provider dial URL' Username' Password' =
     (let cli = gentleman_New dial;
          cli = cli\<lparr>BaseURL := URL'\<rparr>
      in NewTokenProvider cli Username' Password')"

definition NewTokenPlugin_handler ::
  "codec \<Rightarrow> time \<Rightarrow> 'w tokenProvider \<Rightarrow> 'w \<Rightarrow> request \<Rightarrow> handler \<times> 'w tokenProvider \<times> 'w" where
  "NewTokenPlugin_handler cd now provider w ctx =
     (case Token cd now provider w of
        ((token, None), provider', w') \<Rightarrow>
          (h_Next (ctx\<lparr>Header := (Header ctx)(''Authorization'' \<mapsto> ''Bearer '' @ token)\<rparr>),
           provider', w')
      | ((token, Some err), provider', w') \<Rightarrow> (h_Error err, provider', w'))"

text \<open>
  The world of a client built by \<open>NewClient\<close>: the plugin's provider, the world of the
  transport, and how often the clock has been read; \<open>clock k\<close> is its \<open>k\<close>-th reading.
\<close>

record 'w plugged =
  provider :: "'w tokenProvider"
  net :: 'w
  reads :: nat

definition Dispatch ::
  "codec \<Rightarrow> (nat \<Rightarrow> time) \<Rightarrow> ('w \<Rightarrow> request \<Rightarrow> (error + response) \<times> 'w) \<Rightarrow>
     'w plugged \<Rightarrow> request \<Rightarrow> (error + response) \<times> 'w plugged" where
  "Dispatch cd clock dial s req =
     (case NewTokenPlugin_handler cd (clock (reads s)) (provider s) (net s) req of
        (h_Next req', provider', w') \<Rightarrow>
          (case dial w' req' of
             (r, w'') \<Rightarrow> (r, \<lparr>provider = provider', net = w'', reads = Suc (reads s)\<rparr>))
      | (h_Error err, provider', w') \<Rightarrow>
          (Inl err, \<lparr>provider = provider', net = w', reads = Suc (reads s)\<rparr>))"

definition NewClient ::
  "codec \<Rightarrow> (nat \<Rightarrow> time) \<Rightarrow> ('w \<Rightarrow> request \<Rightarrow> (error + response) \<times> 'w) \<Rightarrow> string \<Rightarrow>
     'w plugged gentleman_Client" where
  "NewClient cd clock dial URL' = \<lparr>BaseURL = URL', Do = Dispatch cd clock dial\<rparr>"

definition NewClient_world ::
  "('w \<Rightarrow> request \<Rightarrow> (error + response) \<times> 'w) \<Rightarrow> string \<Rightarrow> string \<Rightarrow> string \<Rightarrow> 'w \<Rightarrow> 'w plugged" where
  "NewClient_world dial URL' Username' Password' w =
     \<lparr>provider = NewTokenPlugin_provider dial URL' Username' Password', net = w, reads = 0\<rparr>"

section \<open>The calls of a run of GetAllUsers\<close>

text \<open>
  The input of the \<open>k\<close>-th call of \<open>GetUsers\<close> in a run of \<open>GetAllUsers\<close> (counted from 0), the
  world that call starts in when no earlier call has ended the loop, and what it returns.
\<close>

definition page_Input :: "nat \<Rightarrow> GetUsersInput" where
  "page_Input k = \<lparr>Offset = of_nat (500 * k), Limit = 500, Order = []\<rparr>"

primrec page_world :: "codec \<Rightarrow> 'w gentleman_Client \<Rightarrow> 'w \<Rightarrow> nat \<Rightarrow> 'w" where
  "page_world cd cli w 0 = w"
| "page_world cd cli w (Suc k) = snd (GetUsers cd cli (page_Input k) (page_world cd cli w k))"

definition page_call :: "codec \<Rightarrow> 'w gentleman_Client \<Rightarrow> 'w \<Rightarrow> nat \<Rightarrow> Users \<times> error option" where
  "page_call cd cli w k = fst (GetUsers cd cli (page_Input k) (page_world cd cli w k))"

definition ends_loop :: "Users \<times> error option \<Rightarrow> bool" where
  "ends_loop r \<longleftrightarrow> snd r \<noteq> None \<or> length (fst r) < 500"

section \<open>Test doubles\<close>

text \<open>
  A codec that decodes every body, through the given functions, and a server that logs
  the requests it receives and answers the \<open>k\<close>-th of them with \<open>serve k\<close>.
\<close>

definition stub_codec ::
  "(string \<Rightarrow> Users) \<Rightarrow> (string \<Rightarrow> apiError) \<Rightarrow> (string \<Rightarrow> token_fields) \<Rightarrow> codec" where
  "stub_codec users apiErr tok =
     \<lparr>json_users = (\<lambda>body. Inr (users body)),
      json_scans = (\<lambda>body. Inr []),
      json_connections = (\<lambda>body. Inr []),
      json_apiError = (\<lambda>body. Inr (apiErr body)),
      json_token = (\<lambda>body. (tok body, None))\<rparr>"

definition mock_dial ::
  "(nat \<Rightarrow> request \<Rightarrow> error + response) \<Rightarrow> request list \<Rightarrow> request \<Rightarrow> (error + response) \<times> request list" where
  "mock_dial serve log req = (serve (length log) req, log @ [req])"

definition mock_Client :: "(nat \<Rightarrow> request \<Rightarrow> error + response) \<Rightarrow> request list gentleman_Client" where
  "mock_Client serve = (gentleman_New (mock_dial serve))\<lparr>BaseURL := ''http://localhost''\<rparr>"

definition no_fields :: token_fields where
  "no_fields =
     \<lparr>access_token = None, expires_at = None,
      token_fields.Username = None, token_fields.Password = None\<rparr>"

text \<open>
  The test codec reads the body \<open>''full''\<close> as a page of 500 users and every other body as a
  page of 10, an error body as the \<^verbatim>\<open>error\<close> field beside the message \<open>''x''\<close>, and a token
  body as the token itself, expiring an hour after the epoch.
\<close>

definition test_codec :: codec where
  "test_codec =
     stub_codec (\<lambda>body. if body = ''full'' then replicate 500 User_zero else replicate 10 User_zero)
       (\<lambda>body. \<lparr>Message = ''x'', Err = body\<rparr>)
       (\<lambda>body. no_fields\<lparr>access_token := Some body, expires_at := Some (3600 * Second)\<rparr>)"

definition serve_status :: "int \<Rightarrow> bool \<Rightarrow> string \<Rightarrow> nat \<Rightarrow> request \<Rightarrow> error + response" where
  "serve_status code ok body k req = Inr \<lparr>StatusCode = code, Ok = ok, Body = body\<rparr>"

definition serve_two_pages :: "nat \<Rightarrow> request \<Rightarrow> error + response" where
  "serve_two_pages k req = Inr \<lparr>StatusCode = 200, Ok = True, Body = (if k = 0 then ''full'' else ''rest'')\<rparr>"

definition serve_page_then_401 :: "nat \<Rightarrow> request \<Rightarrow> error + response" where
  "serve_page_then_401 k req =
     Inr (if k = 0 then \<lparr>StatusCode = 200, Ok = True, Body = ''full''\<rparr>
          else \<lparr>StatusCode = 401, Ok = False, Body = []\<rparr>)"

definition serve_connections :: "nat \<Rightarrow> request \<Rightarrow> error + response" where
  "serve_connections k req =
     Inr \<lparr>StatusCode = (if request.Path req = ''/api/v2/connections/SFTP_001'' then 200 else 401),
          Ok = (request.Path req = ''/api/v2/connections/SFTP_001''), Body = []\<rparr>"

definition test_provider :: "request list tokenProvider" where
  "test_provider =
     NewTokenPlugin_provider (mock_dial (serve_status 200 True ''tok1'')) ''http://localhost'' ''admin'' ''secret''"

section \<open>Properties\<close>

subsection \<open>Users.Filter\<close>

lemma Filter_range_filter: "Filter_range f Results users = Results @ filter f users"
  by (induction users arbitrary: Results) simp_all

text \<open>
  C9. For every user list and predicate, \<open>Filter\<close> returns exactly the records that satisfy
  the predicate, in their original order and unchanged (the result is a function of its
  two arguments only); on \<^verbatim>\<open>[{ID:1},{ID:2}]\<close> with the predicate \<^verbatim>\<open>ID > 1\<close> it returns
  \<^verbatim>\<open>[{ID:2}]\<close>.
\<close>

theorem Filter_subsequence:
  "Filter users f = filter f users \<and>
   Filter [User_zero\<lparr>ID := 1\<rparr>, User_zero\<lparr>ID := 2\<rparr>] (\<lambda>user. 1 <s ID user)
     = [User_zero\<lparr>ID := 2\<rparr>]"
  by (simp add: Filter_def Filter_range_filter word_sless_alt)

theorem Filter_subsequence_witness:
  "Filter [User_zero\<lparr>ID := 3\<rparr>, User_zero\<lparr>ID := 1\<rparr>, User_zero\<lparr>ID := 2\<rparr>] (\<lambda>user. 1 <s ID user)
     = [User_zero\<lparr>ID := 3\<rparr>, User_zero\<lparr>ID := 2\<rparr>]"
  using Filter_subsequence
          [of "[User_zero\<lparr>ID := 3\<rparr>, User_zero\<lparr>ID := 1\<rparr>, User_zero\<lparr>ID := 2\<rparr>]"
              "\<lambda>user. 1 <s ID user"]
  by (simp add: word_sless_alt)

subsection \<open>Error classification\<close>

text \<open>
  C4. \<open>parseErrorResponse\<close> yields the Unauthorized sentinel on status 401 and the Forbidden
  sentinel on 403; on any other status whose body decodes, it yields the decoded
  \<^verbatim>\<open>{message, error}\<close> object, which is neither sentinel and whose message is its
  \<^verbatim>\<open>error\<close> field when that is non-empty and its \<^verbatim>\<open>message\<close> field otherwise.
\<close>

theorem parseErrorResponse_classification:
  "(StatusCode resp = 401 \<longrightarrow> parseErrorResponse cd resp = ErrUnauthorized) \<and>
   (StatusCode resp = 403 \<longrightarrow> parseErrorResponse cd resp = ErrForbidden) \<and>
   (StatusCode resp \<noteq> 401 \<and> StatusCode resp \<noteq> 403 \<and> json_apiError cd (Body resp) = Inr apiErr \<longrightarrow>
      parseErrorResponse cd resp = ApiError apiErr \<and>
      ApiError apiErr \<noteq> ErrUnauthorized \<and> ApiError apiErr \<noteq> ErrForbidden \<and>
      Error (parseErrorResponse cd resp) = (if Err apiErr \<noteq> [] then Err apiErr else Message apiErr))"
  by (simp add: parseErrorResponse_def apiError_Error_def)

theorem parseErrorResponse_classification_witness:
  "parseErrorResponse (stub_codec (\<lambda>body. []) (\<lambda>body. \<lparr>Message = ''x'', Err = body\<rparr>) (\<lambda>body. no_fields))
      \<lparr>StatusCode = 401, Ok = False, Body = []\<rparr> = ErrUnauthorized \<and>
   parseErrorResponse (stub_codec (\<lambda>body. []) (\<lambda>body. \<lparr>Message = ''x'', Err = body\<rparr>) (\<lambda>body. no_fields))
      \<lparr>StatusCode = 403, Ok = False, Body = []\<rparr> = ErrForbidden \<and>
   Error (parseErrorResponse (stub_codec (\<lambda>body. []) (\<lambda>body. \<lparr>Message = ''x'', Err = body\<rparr>) (\<lambda>body. no_fields))
      \<lparr>StatusCode = 400, Ok = False, Body = ''bad request''\<rparr>) = ''bad request'' \<and>
   Error (parseErrorResponse (stub_codec (\<lambda>body. []) (\<lambda>body. \<lparr>Message = ''x'', Err = body\<rparr>) (\<lambda>body. no_fields))
      \<lparr>StatusCode = 500, Ok = False, Body = []\<rparr>) = ''x''"
  using parseErrorResponse_classification
          [of "\<lparr>StatusCode = 401, Ok = False, Body = []\<rparr>"
              "stub_codec (\<lambda>body. []) (\<lambda>body. \<lparr>Message = ''x'', Err = body\<rparr>) (\<lambda>body. no_fields)"]
        parseErrorResponse_classification
          [of "\<lparr>StatusCode = 403, Ok = False, Body = []\<rparr>"
              "stub_codec (\<lambda>body. []) (\<lambda>body. \<lparr>Message = ''x'', Err = body\<rparr>) (\<lambda>body. no_fields)"]
        parseErrorResponse_classification
          [of "\<lparr>StatusCode = 400, Ok = False, Body = ''bad request''\<rparr>"
              "stub_codec (\<lambda>body. []) (\<lambda>body. \<lparr>Message = ''x'', Err = body\<rparr>) (\<lambda>body. no_fields)"
              "\<lparr>Message = ''x'', Err = ''bad request''\<rparr>"]
        parseErrorResponse_classification
          [of "\<lparr>StatusCode = 500, Ok = False, Body = []\<rparr>"
              "stub_codec (\<lambda>body. []) (\<lambda>body. \<lparr>Message = ''x'', Err = body\<rparr>) (\<lambda>body. no_fields)"
              "\<lparr>Message = ''x'', Err = []\<rparr>"]
  by (simp add: stub_codec_def apiError_Error_def)

subsection \<open>The request of GetUsers\<close>

text \<open>
  C8 (as amended). \<open>GetUsers\<close> attaches \<^verbatim>\<open>offset\<close> and \<^verbatim>\<open>limit\<close>, in decimal, exactly when
  they are positive, and leaves them out when they are zero or negative; it attaches
  \<^verbatim>\<open>order\<close> exactly when it is non-empty. The request has no other query parameter.
\<close>

theorem GetUsers_request_query:
  "Query (GetUsers_request cli input) ''offset'' =
     (if 0 <s Offset input then Some (Itoa (Offset input)) else None) \<and>
   Query (GetUsers_request cli input) ''limit'' =
     (if 0 <s Limit input then Some (Itoa (Limit input)) else None) \<and>
   Query (GetUsers_request cli input) ''order'' =
     (if Order input \<noteq> [] then Some (Order input) else None) \<and>
   dom (Query (GetUsers_request cli input)) \<subseteq> {''offset'', ''limit'', ''order''} \<and>
   request.Path (GetUsers_request cli input) = ''/api/v2/users''"
  by (simp add: GetUsers_request_def Request_def SetQuery_def Let_def)

theorem GetUsers_request_query_witness:
  "Query (GetUsers_request (mock_Client serve_two_pages) \<lparr>Offset = 500, Limit = 500, Order = ''ASC''\<rparr>)
     ''offset'' = Some ''500'' \<and>
   Query (GetUsers_request (mock_Client serve_two_pages) \<lparr>Offset = 500, Limit = 500, Order = ''ASC''\<rparr>)
     ''limit'' = Some ''500'' \<and>
   Query (GetUsers_request (mock_Client serve_two_pages) \<lparr>Offset = 500, Limit = 500, Order = ''ASC''\<rparr>)
     ''order'' = Some ''ASC'' \<and>
   Query (GetUsers_request (mock_Client serve_two_pages) \<lparr>Offset = 0, Limit = - 5, Order = []\<rparr>)
     = Map.empty"
proof -
  have "dom (Query (GetUsers_request (mock_Client serve_two_pages) \<lparr>Offset = 0, Limit = - 5, Order = []\<rparr>))
          = {}"
    using GetUsers_request_query
            [of "mock_Client serve_two_pages" "\<lparr>Offset = 0, Limit = - 5, Order = []\<rparr>"]
    by (auto simp add: word_sless_alt)
  then show ?thesis
    using GetUsers_request_query
            [of "mock_Client serve_two_pages" "\<lparr>Offset = 500, Limit = 500, Order = ''ASC''\<rparr>"]
    by (simp add: word_sless_alt Itoa_def)
qed

text \<open>
  C8 as stated fails: the offset \<open>- 1\<close> is not zero, and the request carries no
  \<^verbatim>\<open>offset\<close> parameter.
\<close>

theorem GetUsers_request_query_counterexample:
  "Offset \<lparr>Offset = - 1, Limit = 0, Order = []\<rparr> \<noteq> 0 \<and>
   Query (GetUsers_request (mock_Client serve_two_pages) \<lparr>Offset = - 1, Limit = 0, Order = []\<rparr>)
     ''offset'' = None"
  by (simp add: GetUsers_request_def Request_def SetQuery_def Let_def word_sless_alt)

subsection \<open>The token provider\<close>

text \<open>
  C2. When the cached token expires more than 10 seconds after the current time, \<open>Token\<close>
  returns the cached value with a nil error, and leaves the provider and the world as they
  were: no request goes out.
\<close>

theorem Token_cached:
  "now + 10 * Second < Expires t \<Longrightarrow> Token cd now t w = ((Value t, None), t, w)"
  by (simp add: Token_def)

theorem Token_cached_witness:
  "Token test_codec 0 (test_provider\<lparr>Value := ''tok0'', Expires := 11 * Second\<rparr>) []
     = ((''tok0'', None), test_provider\<lparr>Value := ''tok0'', Expires := 11 * Second\<rparr>, [])"
  using Token_cached [of 0 "test_provider\<lparr>Value := ''tok0'', Expires := 11 * Second\<rparr>" test_codec "[]"]
  by (simp add: Second_def)

text \<open>
  C3. When the cached token expires within 10 seconds of the current time, or has expired,
  \<open>Token\<close> makes one call of \<^verbatim>\<open>Do\<close>, on the request for \<^verbatim>\<open>/api/v2/token\<close> that carries the
  provider's Basic credentials. When that call yields a response that the library flags
  \<^verbatim>\<open>Ok\<close> and whose body decodes, the provider takes the decoded fields, the token value and
  the expiry among them, and \<open>Token\<close> returns the provider's new value with a nil error.
\<close>

theorem Token_refresh:
  assumes "\<not> now + 10 * Second < Expires t"
  shows "snd (snd (Token cd now t w)) = snd (Do (Client t) w (Token_request t)) \<and>
         request.Path (Token_request t) = ''/api/v2/token'' \<and>
         BasicAuth (Token_request t) = Some (tokenProvider.Username t, tokenProvider.Password t) \<and>
         (\<forall>resp fs. fst (Do (Client t) w (Token_request t)) = Inr resp \<and> Ok resp \<and>
              json_token cd (Body resp) = (fs, None) \<longrightarrow>
            fst (Token cd now t w) = (Value (fst (snd (Token cd now t w))), None) \<and>
            fst (snd (Token cd now t w)) = decode_into t fs \<and>
            (\<forall>v. access_token fs = Some v \<longrightarrow> Value (fst (snd (Token cd now t w))) = v) \<and>
            (\<forall>e. expires_at fs = Some e \<longrightarrow> Expires (fst (snd (Token cd now t w))) = e))"
  using assms
  by (auto simp add: Token_def Token_request_def decode_into_def Let_def split: prod.splits sum.splits option.splits)

theorem Token_refresh_witness:
  "Token test_codec 0 (test_provider\<lparr>Value := ''tok0'', Expires := 10 * Second\<rparr>) []
     = ((''tok1'', None),
        test_provider\<lparr>Value := ''tok1'', Expires := 3600 * Second\<rparr>,
        [Token_request test_provider]) \<and>
   Token_request test_provider
     = \<lparr>Method = ''GET'', URL = ''http://localhost'', request.Path = ''/api/v2/token'',
        Query = Map.empty, Header = Map.empty, BasicAuth = Some (''admin'', ''secret''),
        JSON = None\<rparr> \<and>
   fst (Token test_codec 0
          (NewTokenPlugin_provider (mock_dial (serve_status 304 True ''tok3'')) ''http://localhost''
             ''admin'' ''secret'') [])
     = (''tok3'', None)"
proof -
  let ?p = "NewTokenPlugin_provider (mock_dial (serve_status 304 True ''tok3'')) ''http://localhost''
              ''admin'' ''secret''"
  have late3: "\<not> 0 + 10 * Second < Expires ?p"
    by (simp add: NewTokenPlugin_provider_def NewTokenProvider_def zero_Time_def Second_def)
  have do3: "fst (Do (Client ?p) [] (Token_request ?p))
               = Inr \<lparr>StatusCode = 304, Ok = True, Body = ''tok3''\<rparr>"
    by (simp add: NewTokenPlugin_provider_def NewTokenProvider_def gentleman_New_def
          mock_dial_def serve_status_def)
  have dec3: "json_token test_codec ''tok3''
               = (no_fields\<lparr>access_token := Some ''tok3'', expires_at := Some (3600 * Second)\<rparr>, None)"
    by (simp add: test_codec_def stub_codec_def)
  from Token_refresh [OF late3, of test_codec "[]"] do3 dec3
  have flagged: "fst (Token test_codec 0 ?p []) = (''tok3'', None)"
    by (simp add: no_fields_def decode_into_def)
  let ?t = "test_provider\<lparr>Value := ''tok0'', Expires := 10 * Second\<rparr>"
  have late: "\<not> 0 + 10 * Second < Expires ?t"
    by simp
  have req: "Token_request ?t = Token_request test_provider"
    by (simp add: Token_request_def)
  have do: "Do (Client ?t) [] (Token_request ?t)
              = (Inr \<lparr>StatusCode = 200, Ok = True, Body = ''tok1''\<rparr>, [Token_request test_provider])"
    by (simp add: req)
       (simp add: test_provider_def NewTokenPlugin_provider_def NewTokenProvider_def
          gentleman_New_def mock_dial_def serve_status_def)
  have dec: "json_token test_codec ''tok1''
               = (no_fields\<lparr>access_token := Some ''tok1'', expires_at := Some (3600 * Second)\<rparr>, None)"
    by (simp add: test_codec_def stub_codec_def)
  have upd: "decode_into ?t (no_fields\<lparr>access_token := Some ''tok1'', expires_at := Some (3600 * Second)\<rparr>)
               = test_provider\<lparr>Value := ''tok1'', Expires := 3600 * Second\<rparr>"
    by (simp add: decode_into_def no_fields_def)
  from Token_refresh [OF late, of test_codec "[]"] do dec upd
  have "snd (snd (Token test_codec 0 ?t [])) = [Token_request test_provider]"
    and "fst (snd (Token test_codec 0 ?t [])) = test_provider\<lparr>Value := ''tok1'', Expires := 3600 * Second\<rparr>"
    and "fst (Token test_codec 0 ?t []) = (''tok1'', None)"
    by simp_all
  moreover have "Token_request test_provider
     = \<lparr>Method = ''GET'', URL = ''http://localhost'', request.Path = ''/api/v2/token'',
        Query = Map.empty, Header = Map.empty, BasicAuth = Some (''admin'', ''secret''),
        JSON = None\<rparr>"
    by (simp add: Token_request_def Request_def test_provider_def NewTokenPlugin_provider_def
          NewTokenProvider_def gentleman_New_def)
  ultimately show ?thesis
    using flagged by (simp add: prod_eq_iff)
qed

subsection \<open>The token plugin\<close>

lemma Dispatch_Token:
  "Dispatch cd clock dial s req =
     (case Token cd (clock (reads s)) (provider s) (net s) of
        ((token, None), p', w') \<Rightarrow>
          (case dial w' (req\<lparr>Header := (Header req)(''Authorization'' \<mapsto> ''Bearer '' @ token)\<rparr>) of
             (r, w'') \<Rightarrow> (r, \<lparr>provider = p', net = w'', reads = Suc (reads s)\<rparr>))
      | ((token, Some err), p', w') \<Rightarrow>
          (Inl err, \<lparr>provider = p', net = w', reads = Suc (reads s)\<rparr>))"
  by (simp add: Dispatch_def NewTokenPlugin_handler_def split: prod.splits option.splits)

lemma Do_NewClient_abort:
  assumes "Token cd (clock (reads s)) (provider s) (net s) = ((token, Some err), p', w')"
  shows "Do (NewClient cd clock dial URL') s req
           = (Inl err, \<lparr>provider = p', net = w', reads = Suc (reads s)\<rparr>)"
  by (simp add: NewClient_def Dispatch_Token assms)

lemma Do_NewClient_next:
  assumes "Token cd (clock (reads s)) (provider s) (net s) = ((token, None), p', w')"
  shows "Do (NewClient cd clock dial URL') s req
           = (fst (dial w' (req\<lparr>Header := (Header req)(''Authorization'' \<mapsto> ''Bearer '' @ token)\<rparr>)),
              \<lparr>provider = p',
               net = snd (dial w' (req\<lparr>Header := (Header req)(''Authorization'' \<mapsto> ''Bearer '' @ token)\<rparr>)),
               reads = Suc (reads s)\<rparr>)"
  by (simp add: NewClient_def Dispatch_Token assms split: prod.splits)

lemma doJSON_abort:
  assumes "\<And>req. Do cli s req = (Inl err, s')"
  shows "doJSON cd decode cli req s = (Inl err, s')"
  by (simp add: doJSON_def assms)

lemma operations_abort:
  assumes "\<And>req. Do cli s req = (Inl err, s')"
  shows "GetUsers cd cli input s = (([], Some err), s')"
    and "GetUserQuotaScans cd cli s = (([], Some err), s')"
    and "GetActiveConnections cd cli s = (([], Some err), s')"
    and "StartUserQuotaScan cd cli user s = (Some err, s')"
    and "GetAllUsers cd cli s = Some (([], Some err), s')"
proof -
  show g: "GetUsers cd cli input s = (([], Some err), s')" for input
    by (simp add: GetUsers_def doJSON_abort [OF assms])
  show "GetUserQuotaScans cd cli s = (([], Some err), s')"
    by (simp add: GetUserQuotaScans_def doJSON_abort [OF assms])
  show "GetActiveConnections cd cli s = (([], Some err), s')"
    by (simp add: GetActiveConnections_def doJSON_abort [OF assms])
  show "StartUserQuotaScan cd cli user s = (Some err, s')"
    by (simp add: StartUserQuotaScan_def assms)
  show "GetAllUsers cd cli s = Some (([], Some err), s')"
    unfolding GetAllUsers_def by (subst GetAllUsers_loop.simps) (simp add: g)
qed

text \<open>
  C6. On a client built by \<open>NewClient\<close>, when the plugin's call of \<open>Token\<close> fails, \<^verbatim>\<open>Do\<close>
  returns the token error and the transport is left in the world \<open>Token\<close> left it in: the
  request is not dialled. Every operation of the client then returns that error. When
  \<open>Token\<close> succeeds, the request that is dialled carries the header \<^verbatim>\<open>Authorization\<close> with
  the value \<^verbatim>\<open>Bearer\<close> followed by the token.
\<close>

theorem NewTokenPlugin_bearer_or_abort:
  assumes "Token cd (clock (reads s)) (provider s) (net s) = ((token, e), p', w')"
  shows "(\<forall>err. e = Some err \<longrightarrow>
            Do (NewClient cd clock dial URL') s req
              = (Inl err, \<lparr>provider = p', net = w', reads = Suc (reads s)\<rparr>) \<and>
            GetUsers cd (NewClient cd clock dial URL') input s
              = (([], Some err), \<lparr>provider = p', net = w', reads = Suc (reads s)\<rparr>) \<and>
            GetUserQuotaScans cd (NewClient cd clock dial URL') s
              = (([], Some err), \<lparr>provider = p', net = w', reads = Suc (reads s)\<rparr>) \<and>
            GetActiveConnections cd (NewClient cd clock dial URL') s
              = (([], Some err), \<lparr>provider = p', net = w', reads = Suc (reads s)\<rparr>) \<and>
            StartUserQuotaScan cd (NewClient cd clock dial URL') user s
              = (Some err, \<lparr>provider = p', net = w', reads = Suc (reads s)\<rparr>) \<and>
            GetAllUsers cd (NewClient cd clock dial URL') s
              = Some (([], Some err), \<lparr>provider = p', net = w', reads = Suc (reads s)\<rparr>)) \<and>
         (e = None \<longrightarrow>
            Do (NewClient cd clock dial URL') s req
              = (fst (dial w' (req\<lparr>Header := (Header req)(''Authorization'' \<mapsto> ''Bearer '' @ token)\<rparr>)),
                 \<lparr>provider = p',
                  net = snd (dial w' (req\<lparr>Header := (Header req)(''Authorization'' \<mapsto> ''Bearer '' @ token)\<rparr>)),
                  reads = Suc (reads s)\<rparr>))"
proof (intro conjI allI impI)
  fix err
  assume "e = Some err"
  with assms have ab: "Do (NewClient cd clock dial URL') s req
      = (Inl err, \<lparr>provider = p', net = w', reads = Suc (reads s)\<rparr>)" for req
    by (simp add: Do_NewClient_abort)
  show "Do (NewClient cd clock dial URL') s req
      = (Inl err, \<lparr>provider = p', net = w', reads = Suc (reads s)\<rparr>)"
    by (rule ab)
  show "GetUsers cd (NewClient cd clock dial URL') input s
      = (([], Some err), \<lparr>provider = p', net = w', reads = Suc (reads s)\<rparr>)"
    by (rule operations_abort(1) [OF ab])
  show "GetUserQuotaScans cd (NewClient cd clock dial URL') s
      = (([], Some err), \<lparr>provider = p', net = w', reads = Suc (reads s)\<rparr>)"
    by (rule operations_abort(2) [OF ab])
  show "GetActiveConnections cd (NewClient cd clock dial URL') s
      = (([], Some err), \<lparr>provider = p', net = w', reads = Suc (reads s)\<rparr>)"
    by (rule operations_abort(3) [OF ab])
  show "StartUserQuotaScan cd (NewClient cd clock dial URL') user s
      = (Some err, \<lparr>provider = p', net = w', reads = Suc (reads s)\<rparr>)"
    by (rule operations_abort(4) [OF ab])
  show "GetAllUsers cd (NewClient cd clock dial URL') s
      = Some (([], Some err), \<lparr>provider = p', net = w', reads = Suc (reads s)\<rparr>)"
    by (rule operations_abort(5) [OF ab])
next
  assume "e = None"
  with assms show "Do (NewClient cd clock dial URL') s req
      = (fst (dial w' (req\<lparr>Header := (Header req)(''Authorization'' \<mapsto> ''Bearer '' @ token)\<rparr>)),
         \<lparr>provider = p',
          net = snd (dial w' (req\<lparr>Header := (Header req)(''Authorization'' \<mapsto> ''Bearer '' @ token)\<rparr>)),
          reads = Suc (reads s)\<rparr>)"
    by (simp add: Do_NewClient_next)
qed

theorem NewTokenPlugin_bearer_or_abort_witness:
  "GetUsers test_codec
      (NewClient test_codec (\<lambda>k. 0) (mock_dial (serve_status 401 False [])) ''http://localhost'')
      \<lparr>Offset = 0, Limit = 0, Order = []\<rparr>
      (NewClient_world (mock_dial (serve_status 401 False [])) ''http://localhost'' ''admin'' ''secret'' [])
     = (([], Some ErrUnauthorized),
        \<lparr>provider = NewTokenPlugin_provider (mock_dial (serve_status 401 False [])) ''http://localhost''
                      ''admin'' ''secret'',
         net = [Token_request test_provider], reads = Suc 0\<rparr>) \<and>
   net (snd (Do (NewClient test_codec (\<lambda>k. 0) (mock_dial (serve_status 200 True ''tok1'')) ''http://localhost'')
              \<lparr>provider = test_provider, net = [], reads = 0\<rparr>
              (Token_request test_provider)))
     = [Token_request test_provider,
        (Token_request test_provider)\<lparr>Header := [''Authorization'' \<mapsto> ''Bearer tok1'']\<rparr>]"
proof -
  let ?dial = "mock_dial (serve_status 401 False [])"
  let ?s = "NewClient_world ?dial ''http://localhost'' ''admin'' ''secret'' []"
  have req: "Token_request (provider ?s) = Token_request test_provider"
    by (simp add: Token_request_def Request_def test_provider_def NewClient_world_def
          NewTokenPlugin_provider_def NewTokenProvider_def gentleman_New_def)
  have "Token test_codec ((\<lambda>k. 0) (reads ?s)) (provider ?s) (net ?s)
          = (([], Some ErrUnauthorized), provider ?s, [Token_request (provider ?s)])"
    by (simp add: Token_def)
       (simp add: NewClient_world_def NewTokenPlugin_provider_def NewTokenProvider_def
          gentleman_New_def mock_dial_def serve_status_def parseErrorResponse_def
          zero_Time_def Second_def)
  from NewTokenPlugin_bearer_or_abort [OF this, of ?dial "''http://localhost''"]
  have abort: "GetUsers test_codec (NewClient test_codec (\<lambda>k. 0) ?dial ''http://localhost'')
                 \<lparr>Offset = 0, Limit = 0, Order = []\<rparr> ?s
      = (([], Some ErrUnauthorized),
         \<lparr>provider = provider ?s, net = [Token_request (provider ?s)], reads = Suc (reads ?s)\<rparr>)"
    by simp
  let ?s1 = "\<lparr>provider = test_provider, net = [], reads = 0\<rparr> :: request list plugged"
  have "Token test_codec ((\<lambda>k. 0) (reads ?s1)) (provider ?s1) (net ?s1)
          = ((''tok1'', None), test_provider\<lparr>Value := ''tok1'', Expires := 3600 * Second\<rparr>,
             [Token_request test_provider])"
    by (simp add: Token_def)
       (simp add: test_provider_def NewTokenPlugin_provider_def NewTokenProvider_def
          gentleman_New_def mock_dial_def serve_status_def test_codec_def stub_codec_def
          decode_into_def no_fields_def zero_Time_def Second_def)
  from NewTokenPlugin_bearer_or_abort
         [OF this, of "mock_dial (serve_status 200 True ''tok1'')" "''http://localhost''"
            "Token_request test_provider"]
  have "net (snd (Do (NewClient test_codec (\<lambda>k. 0) (mock_dial (serve_status 200 True ''tok1'')) ''http://localhost'')
              ?s1 (Token_request test_provider)))
     = [Token_request test_provider,
        (Token_request test_provider)\<lparr>Header := [''Authorization'' \<mapsto> ''Bearer tok1'']\<rparr>]"
    by (simp add: mock_dial_def Token_request_def Request_def)
  with abort show ?thesis
    by (simp add: req) (simp add: NewClient_world_def)
qed

subsection \<open>TerminateActiveConnection\<close>

text \<open>
  C7. \<open>TerminateActiveConnection\<close> returns nil exactly when its DELETE request to
  \<^verbatim>\<open>/api/v2/connections/{id}\<close> gets a response with a 2xx status. On any other response
  it returns the classified error, the Unauthorized sentinel on status 401. Called again
  in another world where the request gets the same answer, it returns the same error.
  The world it leaves is the world after one call of \<^verbatim>\<open>Do\<close> on that request.
\<close>

theorem TerminateActiveConnection_classified:
  "(fst (TerminateActiveConnection cd cli connectionID w) = None \<longleftrightarrow>
      (\<exists>resp. fst (Do cli w ((Request cli)\<lparr>Method := ''DELETE'',
                  request.Path := ''/api/v2/connections/'' @ connectionID\<rparr>)) = Inr resp \<and>
              200 \<le> StatusCode resp \<and> StatusCode resp < 300)) \<and>
   (\<forall>resp. fst (Do cli w ((Request cli)\<lparr>Method := ''DELETE'',
                  request.Path := ''/api/v2/connections/'' @ connectionID\<rparr>)) = Inr resp \<and>
            \<not> (200 \<le> StatusCode resp \<and> StatusCode resp < 300) \<longrightarrow>
       fst (TerminateActiveConnection cd cli connectionID w) = Some (parseErrorResponse cd resp) \<and>
       (StatusCode resp = 401 \<longrightarrow>
          fst (TerminateActiveConnection cd cli connectionID w) = Some ErrUnauthorized)) \<and>
   (\<forall>w2. fst (Do cli w2 ((Request cli)\<lparr>Method := ''DELETE'',
                  request.Path := ''/api/v2/connections/'' @ connectionID\<rparr>))
          = fst (Do cli w ((Request cli)\<lparr>Method := ''DELETE'',
                  request.Path := ''/api/v2/connections/'' @ connectionID\<rparr>)) \<longrightarrow>
       fst (TerminateActiveConnection cd cli connectionID w2)
         = fst (TerminateActiveConnection cd cli connectionID w)) \<and>
   snd (TerminateActiveConnection cd cli connectionID w)
     = snd (Do cli w ((Request cli)\<lparr>Method := ''DELETE'',
                  request.Path := ''/api/v2/connections/'' @ connectionID\<rparr>))"
  by (auto simp add: TerminateActiveConnection_def Let_def parseErrorResponse_def
           split: prod.splits sum.splits)

theorem TerminateActiveConnection_classified_witness:
  "fst (TerminateActiveConnection test_codec (mock_Client serve_connections) ''SFTP_001'' []) = None \<and>
   fst (TerminateActiveConnection test_codec (mock_Client serve_connections) ''SFTP_002'' [])
     = Some ErrUnauthorized \<and>
   fst (TerminateActiveConnection test_codec (mock_Client serve_connections) ''SFTP_002''
          (snd (TerminateActiveConnection test_codec (mock_Client serve_connections) ''SFTP_002'' [])))
     = Some ErrUnauthorized \<and>
   snd (TerminateActiveConnection test_codec (mock_Client serve_connections) ''SFTP_002'' [])
     = [\<lparr>Method = ''DELETE'', URL = ''http://localhost'',
         request.Path = ''/api/v2/connections/SFTP_002'', Query = Map.empty, Header = Map.empty,
         BasicAuth = None, JSON = None\<rparr>]"
proof -
  let ?cli = "mock_Client serve_connections"
  have do: "Do ?cli w req
        = (Inr \<lparr>StatusCode = (if request.Path req = ''/api/v2/connections/SFTP_001'' then 200 else 401),
                Ok = (request.Path req = ''/api/v2/connections/SFTP_001''), Body = []\<rparr>,
           w @ [req])"
    for w req
    by (simp add: mock_Client_def gentleman_New_def mock_dial_def serve_connections_def)
  have ok: "fst (Do ?cli [] ((Request ?cli)\<lparr>Method := ''DELETE'',
                request.Path := ''/api/v2/connections/'' @ ''SFTP_001''\<rparr>))
              = Inr \<lparr>StatusCode = 200, Ok = True, Body = []\<rparr>"
    by (simp add: do)
  have gone: "fst (Do ?cli w ((Request ?cli)\<lparr>Method := ''DELETE'',
                request.Path := ''/api/v2/connections/'' @ ''SFTP_002''\<rparr>))
              = Inr \<lparr>StatusCode = 401, Ok = False, Body = []\<rparr>" for w
    by (simp add: do)
  have sent: "snd (Do ?cli [] ((Request ?cli)\<lparr>Method := ''DELETE'',
                request.Path := ''/api/v2/connections/'' @ ''SFTP_002''\<rparr>))
              = [\<lparr>Method = ''DELETE'', URL = ''http://localhost'',
                  request.Path = ''/api/v2/connections/SFTP_002'', Query = Map.empty,
                  Header = Map.empty, BasicAuth = None, JSON = None\<rparr>]"
    by (simp add: do) (simp add: Request_def mock_Client_def gentleman_New_def)
  have a: "fst (TerminateActiveConnection test_codec ?cli ''SFTP_001'' []) = None"
    by (rule TerminateActiveConnection_classified
          [of test_codec ?cli "''SFTP_001''" "[]", THEN conjunct1, THEN iffD2])
       (simp only: ok, simp)
  have b: "fst (TerminateActiveConnection test_codec ?cli ''SFTP_002'' []) = Some ErrUnauthorized"
    by (rule TerminateActiveConnection_classified
          [of test_codec ?cli "''SFTP_002''" "[]", THEN conjunct2, THEN conjunct1, THEN spec,
           THEN mp, THEN conjunct2, THEN mp, of "\<lparr>StatusCode = 401, Ok = False, Body = []\<rparr>"])
       (simp only: gone, simp, simp)
  have c: "fst (TerminateActiveConnection test_codec ?cli ''SFTP_002''
                  (snd (TerminateActiveConnection test_codec ?cli ''SFTP_002'' [])))
             = fst (TerminateActiveConnection test_codec ?cli ''SFTP_002'' [])"
    by (rule TerminateActiveConnection_classified
          [of test_codec ?cli "''SFTP_002''" "[]", THEN conjunct2, THEN conjunct2, THEN conjunct1,
           THEN spec, THEN mp])
       (simp only: gone)
  have d: "snd (TerminateActiveConnection test_codec ?cli ''SFTP_002'' [])
             = snd (Do ?cli [] ((Request ?cli)\<lparr>Method := ''DELETE'',
                  request.Path := ''/api/v2/connections/'' @ ''SFTP_002''\<rparr>))"
    by (rule TerminateActiveConnection_classified
          [of test_codec ?cli "''SFTP_002''" "[]", THEN conjunct2, THEN conjunct2, THEN conjunct2])
  from a b c d sent show ?thesis
    by simp
qed

subsection \<open>GetAllUsers\<close>

lemma page_Input_next:
  "(page_Input k)\<lparr>Offset := Offset (page_Input k) + Limit (page_Input k)\<rparr> = page_Input (Suc k)"
  by (simp add: page_Input_def)

lemma GetUsers_page:
  "GetUsers cd cli (page_Input k) (page_world cd cli w k)
     = (page_call cd cli w k, page_world cd cli w (Suc k))"
  by (simp add: page_call_def)

lemma loop_continue:
  assumes "\<not> ends_loop (page_call cd cli w k)"
  shows "GetAllUsers_loop cd cli (page_Input k) all (page_world cd cli w k)
           = GetAllUsers_loop cd cli (page_Input (Suc k)) (all @ fst (page_call cd cli w k))
               (page_world cd cli w (Suc k))"
proof -
  obtain page e where pc: "page_call cd cli w k = (page, e)"
    by (cases "page_call cd cli w k")
  with assms have e: "e = None" and full: "\<not> length page < 500"
    by (simp_all add: ends_loop_def)
  have lim: "sint (Limit (page_Input k)) = 500"
    by (simp add: page_Input_def)
  show ?thesis
    by (subst GetAllUsers_loop.simps) (simp add: GetUsers_page pc e full lim page_Input_next del: page_world.simps)
qed

lemma loop_stop_short:
  assumes "snd (page_call cd cli w k) = None" and "length (fst (page_call cd cli w k)) < 500"
  shows "GetAllUsers_loop cd cli (page_Input k) all (page_world cd cli w k)
           = Some ((all @ fst (page_call cd cli w k), None), page_world cd cli w (Suc k))"
proof -
  obtain page e where pc: "page_call cd cli w k = (page, e)"
    by (cases "page_call cd cli w k")
  with assms have e: "e = None" and short: "length page < 500"
    by simp_all
  have lim: "sint (Limit (page_Input k)) = 500"
    by (simp add: page_Input_def)
  show ?thesis
    by (subst GetAllUsers_loop.simps) (simp add: GetUsers_page pc e short lim del: page_world.simps)
qed

lemma loop_stop_error:
  assumes "snd (page_call cd cli w k) = Some err"
  shows "GetAllUsers_loop cd cli (page_Input k) all (page_world cd cli w k)
           = Some (([], Some err), page_world cd cli w (Suc k))"
proof -
  obtain page e where pc: "page_call cd cli w k = (page, e)"
    by (cases "page_call cd cli w k")
  with assms have e: "e = Some err"
    by simp
  show ?thesis
    by (subst GetAllUsers_loop.simps) (simp add: GetUsers_page pc e del: page_world.simps)
qed

lemma loop_skip:
  assumes "\<And>k. k < n \<Longrightarrow> \<not> ends_loop (page_call cd cli w k)"
  shows "GetAllUsers cd cli w
           = GetAllUsers_loop cd cli (page_Input n)
               (concat (map (\<lambda>k. fst (page_call cd cli w k)) [0..<n])) (page_world cd cli w n)"
  using assms
proof (induction n)
  case 0
  show ?case by (simp add: GetAllUsers_def page_Input_def)
next
  case (Suc n)
  then have "GetAllUsers cd cli w
           = GetAllUsers_loop cd cli (page_Input n)
               (concat (map (\<lambda>k. fst (page_call cd cli w k)) [0..<n])) (page_world cd cli w n)"
    by simp
  also have "\<dots> = GetAllUsers_loop cd cli (page_Input (Suc n))
               (concat (map (\<lambda>k. fst (page_call cd cli w k)) [0..<n]) @ fst (page_call cd cli w n))
               (page_world cd cli w (Suc n))"
    using Suc.prems by (intro loop_continue) simp
  finally show ?case by (simp del: page_world.simps)
qed

lemma loop_Some_ends:
  assumes run: "GetAllUsers_loop cd cli Input all w0 = Some y"
  shows "\<forall>k w. Input = page_Input k \<and> w0 = page_world cd cli w k \<longrightarrow>
           (\<exists>j. ends_loop (page_call cd cli w j))"
proof (rule GetAllUsers_loop.raw_induct
         [where P = "\<lambda>cd cli Input all w0 y.
            \<forall>k w. Input = page_Input k \<and> w0 = page_world cd cli w k \<longrightarrow>
              (\<exists>j. ends_loop (page_call cd cli w j))", OF _ run], goal_cases)
  case (1 loop cd cli Input all w0 y)
  show ?case
  proof (intro allI impI, elim conjE)
    fix k w
    assume Input: "Input = page_Input k" and w0: "w0 = page_world cd cli w k"
    show "\<exists>j. ends_loop (page_call cd cli w j)"
    proof (cases "ends_loop (page_call cd cli w k)")
      case True
      then show ?thesis by blast
    next
      case False
      obtain page e where pc: "page_call cd cli w k = (page, e)"
        by (cases "page_call cd cli w k")
      with False have e: "e = None" and full: "\<not> length page < 500"
        by (simp_all add: ends_loop_def)
      have lim: "sint (Limit (page_Input k)) = 500"
        by (simp add: page_Input_def)
      from 1(2)
      have "loop cd cli (page_Input (Suc k)) (all @ page) (page_world cd cli w (Suc k)) = Some y"
        by (simp add: Input w0 GetUsers_page pc e full lim page_Input_next del: page_world.simps)
      from 1(1) [OF this] show ?thesis
        by blast
    qed
  qed
qed

lemma GetUsers_serve_status:
  "GetUsers test_codec (mock_Client (serve_status 200 True body)) input log
     = ((if body = ''full'' then replicate 500 User_zero else replicate 10 User_zero, None),
        log @ [GetUsers_request (mock_Client (serve_status 200 True body)) input])"
  by (simp add: GetUsers_def doJSON_def mock_Client_def gentleman_New_def mock_dial_def
        serve_status_def test_codec_def stub_codec_def)

lemma GetUsers_two_pages:
  "GetUsers test_codec (mock_Client serve_two_pages) input log
     = ((if length log = 0 then replicate 500 User_zero else replicate 10 User_zero, None),
        log @ [GetUsers_request (mock_Client serve_two_pages) input])"
  by (simp add: GetUsers_def doJSON_def mock_Client_def gentleman_New_def mock_dial_def
        serve_two_pages_def test_codec_def stub_codec_def)

lemma GetUsers_page_then_401:
  "GetUsers test_codec (mock_Client serve_page_then_401) input log
     = ((if length log = 0 then replicate 500 User_zero else [],
         if length log = 0 then None else Some ErrUnauthorized),
        log @ [GetUsers_request (mock_Client serve_page_then_401) input])"
  by (simp add: GetUsers_def doJSON_def mock_Client_def gentleman_New_def mock_dial_def
        serve_page_then_401_def test_codec_def stub_codec_def parseErrorResponse_def)

text \<open>
  C1. The \<open>k\<close>-th call of a run has the input \<open>page_Input k\<close>: page size 500 and offset
  \<open>500 * k\<close>, so offset 0 first and 500 more after each page. When the calls before the
  \<open>n\<close>-th return full pages without error and the \<open>n\<close>-th returns fewer than 500 records,
  \<open>GetAllUsers\<close> returns the pages of the calls \<open>0, \<dots>, n\<close> appended in order, with a nil
  error, in the world those \<open>n + 1\<close> calls leave.
\<close>

theorem GetAllUsers_pages:
  assumes "\<And>k. k < n \<Longrightarrow> \<not> ends_loop (page_call cd cli w k)"
    and "snd (page_call cd cli w n) = None"
    and "length (fst (page_call cd cli w n)) < 500"
  shows "GetAllUsers cd cli w
           = Some ((concat (map (\<lambda>k. fst (page_call cd cli w k)) [0..<Suc n]), None),
                   page_world cd cli w (Suc n)) \<and>
         page_Input 0 = \<lparr>Offset = 0, Limit = 500, Order = []\<rparr> \<and>
         (\<forall>k. page_Input (Suc k) = (page_Input k)\<lparr>Offset := Offset (page_Input k) + 500\<rparr>)"
proof -
  have "GetAllUsers cd cli w
           = Some ((concat (map (\<lambda>k. fst (page_call cd cli w k)) [0..<Suc n]), None),
                   page_world cd cli w (Suc n))"
    using loop_skip [OF assms(1)] loop_stop_short [OF assms(2,3)]
    by (simp del: page_world.simps)
  moreover have "page_Input 0 = \<lparr>Offset = 0, Limit = 500, Order = []\<rparr>"
    by (simp add: page_Input_def)
  moreover have "page_Input (Suc k) = (page_Input k)\<lparr>Offset := Offset (page_Input k) + 500\<rparr>" for k
    by (simp add: page_Input_def)
  ultimately show ?thesis
    by blast
qed

theorem GetAllUsers_pages_witness:
  "GetAllUsers test_codec (mock_Client serve_two_pages) []
     = Some ((replicate 500 User_zero @ replicate 10 User_zero, None),
             [GetUsers_request (mock_Client serve_two_pages) \<lparr>Offset = 0, Limit = 500, Order = []\<rparr>,
              GetUsers_request (mock_Client serve_two_pages) \<lparr>Offset = 500, Limit = 500, Order = []\<rparr>]) \<and>
   length (replicate 500 User_zero @ replicate 10 User_zero) = 510"
proof -
  have c0: "page_call test_codec (mock_Client serve_two_pages) [] 0 = (replicate 500 User_zero, None)"
    by (simp add: page_call_def GetUsers_two_pages)
  have c1: "page_call test_codec (mock_Client serve_two_pages) [] (Suc 0) = (replicate 10 User_zero, None)"
    by (simp add: page_call_def GetUsers_two_pages)
  have w2: "page_world test_codec (mock_Client serve_two_pages) [] (Suc (Suc 0))
     = [GetUsers_request (mock_Client serve_two_pages) \<lparr>Offset = 0, Limit = 500, Order = []\<rparr>,
        GetUsers_request (mock_Client serve_two_pages) \<lparr>Offset = 500, Limit = 500, Order = []\<rparr>]"
    by (simp add: GetUsers_two_pages page_Input_def)
  have full: "\<not> ends_loop (page_call test_codec (mock_Client serve_two_pages) [] k)" if "k < Suc 0" for k
    using that by (simp add: c0 ends_loop_def)
  have "snd (page_call test_codec (mock_Client serve_two_pages) [] (Suc 0)) = None"
    and "length (fst (page_call test_codec (mock_Client serve_two_pages) [] (Suc 0))) < 500"
    by (simp_all add: c1)
  from GetAllUsers_pages [of "Suc 0" test_codec "mock_Client serve_two_pages" "[]", OF full this]
  show ?thesis
    by (simp add: c0 c1 w2 del: page_world.simps)
qed

text \<open>
  C5. When the calls before the \<open>n\<close>-th return full pages without error and the \<open>n\<close>-th
  returns an error, \<open>GetAllUsers\<close> returns the nil slice together with that error: the
  records of the earlier pages are not part of the result.
\<close>

theorem GetAllUsers_page_error:
  assumes "\<And>k. k < n \<Longrightarrow> \<not> ends_loop (page_call cd cli w k)"
    and "snd (page_call cd cli w n) = Some err"
  shows "GetAllUsers cd cli w = Some (([], Some err), page_world cd cli w (Suc n))"
  using loop_skip [OF assms(1)] loop_stop_error [OF assms(2)] by (simp del: page_world.simps)

theorem GetAllUsers_page_error_witness:
  "fst (page_call test_codec (mock_Client serve_page_then_401) [] 0) = replicate 500 User_zero \<and>
   GetAllUsers test_codec (mock_Client serve_page_then_401) []
     = Some (([], Some ErrUnauthorized),
             [GetUsers_request (mock_Client serve_page_then_401) \<lparr>Offset = 0, Limit = 500, Order = []\<rparr>,
              GetUsers_request (mock_Client serve_page_then_401) \<lparr>Offset = 500, Limit = 500, Order = []\<rparr>])"
proof -
  have c0: "page_call test_codec (mock_Client serve_page_then_401) [] 0 = (replicate 500 User_zero, None)"
    by (simp add: page_call_def GetUsers_page_then_401)
  have c1: "page_call test_codec (mock_Client serve_page_then_401) [] (Suc 0) = ([], Some ErrUnauthorized)"
    by (simp add: page_call_def GetUsers_page_then_401)
  have w2: "page_world test_codec (mock_Client serve_page_then_401) [] (Suc (Suc 0))
     = [GetUsers_request (mock_Client serve_page_then_401) \<lparr>Offset = 0, Limit = 500, Order = []\<rparr>,
        GetUsers_request (mock_Client serve_page_then_401) \<lparr>Offset = 500, Limit = 500, Order = []\<rparr>]"
    by (simp add: GetUsers_page_then_401 page_Input_def)
  have full: "\<not> ends_loop (page_call test_codec (mock_Client serve_page_then_401) [] k)"
    if "k < Suc 0" for k
    using that by (simp add: c0 ends_loop_def)
  have "snd (page_call test_codec (mock_Client serve_page_then_401) [] (Suc 0)) = Some ErrUnauthorized"
    by (simp add: c1)
  from GetAllUsers_page_error [of "Suc 0" test_codec "mock_Client serve_page_then_401" "[]", OF full this]
  show ?thesis
    by (simp add: c0 w2 del: page_world.simps)
qed

text \<open>
  C10. \<open>GetAllUsers\<close> returns if and only if some call of its run returns an error or fewer
  than 500 records; when every call returns exactly 500 records without error, it never
  returns.
\<close>

theorem GetAllUsers_terminates_iff:
  "((\<exists>r. GetAllUsers cd cli w = Some r) \<longleftrightarrow> (\<exists>k. ends_loop (page_call cd cli w k))) \<and>
   ((\<forall>k. snd (page_call cd cli w k) = None \<and> length (fst (page_call cd cli w k)) = 500) \<longrightarrow>
      GetAllUsers cd cli w = None)"
proof -
  have fwd: "\<exists>k. ends_loop (page_call cd cli w k)" if "GetAllUsers cd cli w = Some r" for r
  proof -
    have "GetAllUsers_loop cd cli (page_Input 0) [] (page_world cd cli w 0) = Some r"
      using that by (simp add: GetAllUsers_def page_Input_def)
    from loop_Some_ends [OF this] show ?thesis
      by blast
  qed
  have bwd: "\<exists>r. GetAllUsers cd cli w = Some r" if "ends_loop (page_call cd cli w k)" for k
  proof -
    define n where "n = (LEAST j. ends_loop (page_call cd cli w j))"
    have n: "ends_loop (page_call cd cli w n)"
      unfolding n_def using that by (rule LeastI)
    have before: "\<not> ends_loop (page_call cd cli w j)" if "j < n" for j
      using that unfolding n_def by (rule not_less_Least)
    show ?thesis
    proof (cases "snd (page_call cd cli w n)")
      case None
      with n have "length (fst (page_call cd cli w n)) < 500"
        by (simp add: ends_loop_def)
      with loop_skip [of n cd cli w] loop_stop_short [OF None, of "concat (map (\<lambda>k. fst (page_call cd cli w k)) [0..<n])"] before
      show ?thesis by (simp del: page_world.simps)
    next
      case (Some err)
      with loop_skip [of n cd cli w] loop_stop_error [OF Some, of "concat (map (\<lambda>k. fst (page_call cd cli w k)) [0..<n])"] before
      show ?thesis by (simp del: page_world.simps)
    qed
  qed
  have forever: "GetAllUsers cd cli w = None"
    if "\<forall>k. snd (page_call cd cli w k) = None \<and> length (fst (page_call cd cli w k)) = 500"
  proof (cases "GetAllUsers cd cli w")
    case None
    then show ?thesis .
  next
    case (Some r)
    from fwd [OF this] that show ?thesis
      by (auto simp add: ends_loop_def)
  qed
  from fwd bwd forever show ?thesis by blast
qed

theorem GetAllUsers_terminates_iff_witness:
  "GetAllUsers test_codec (mock_Client (serve_status 200 True ''full'')) [] = None \<and>
   GetAllUsers test_codec (mock_Client serve_two_pages) [] \<noteq> None"
proof -
  have "\<forall>k. snd (page_call test_codec (mock_Client (serve_status 200 True ''full'')) [] k) = None \<and>
            length (fst (page_call test_codec (mock_Client (serve_status 200 True ''full'')) [] k)) = 500"
    by (simp add: page_call_def GetUsers_serve_status)
  with GetAllUsers_terminates_iff [of test_codec "mock_Client (serve_status 200 True ''full'')" "[]"]
  have forever: "GetAllUsers test_codec (mock_Client (serve_status 200 True ''full'')) [] = None"
    by blast
  have "ends_loop (page_call test_codec (mock_Client serve_two_pages) [] (Suc 0))"
    by (simp add: page_call_def GetUsers_two_pages ends_loop_def)
  with GetAllUsers_terminates_iff [of test_codec "mock_Client serve_two_pages" "[]"]
  have "\<exists>r. GetAllUsers test_codec (mock_Client serve_two_pages) [] = Some r"
    by blast
  with forever show ?thesis
    by auto
qed

end
